theory Spec2Isabelle
  imports Complex_Main
begin

section \<open>JSON values\<close>

text \<open>
  Request bodies are parsed JSON objects. A body is a map from property names to JSON
  values; a property the client did not send reads as \<open>None\<close> (JavaScript's
  \<open>undefined\<close>). A JSON number is the double its literal parses to, kept as the
  rational it denotes.
\<close>

datatype json =
    JNull
  | JBool bool
  | JNumber rat
  | JString string
  | JArray "json list"
  | JObject "(string \<times> json) list"

type_synonym body = "string \<rightharpoonup> json"

text \<open>JavaScript truthiness of a property read, as used by \<open>!email\<close>.\<close>

fun truthy :: "json option \<Rightarrow> bool" where
  "truthy None = False"
| "truthy (Some JNull) = False"
| "truthy (Some (JBool b)) = b"
| "truthy (Some (JNumber n)) = (n \<noteq> 0)"
| "truthy (Some (JString s)) = (s \<noteq> [])"
| "truthy (Some (JArray xs)) = True"
| "truthy (Some (JObject kvs)) = True"

section \<open>JavaScript numbers\<close>

text \<open>
  A JavaScript number is an IEEE-754 binary64 value: NaN, an infinity, or a finite
  double, kept as the rational it denotes (the sign of zero is not kept).
\<close>

datatype number = NaN | PosInfinity | NegInfinity | Finite rat

text \<open>The number of binary digits of a natural number.\<close>

fun bit_length :: "nat \<Rightarrow> nat" where
  "bit_length n = (if n = 0 then 0 else Suc (bit_length (n div 2)))"

declare bit_length.simps [simp del]

definition pow2 :: "int \<Rightarrow> rat" where
  "pow2 k = (if 0 \<le> k then 2 ^ nat k else 1 / 2 ^ nat (- k))"

text \<open>The binary exponent of a positive rational \<open>a\<close>: \<open>2 ^ e \<le> a < 2 ^ (e + 1)\<close>.\<close>

definition binade :: "rat \<Rightarrow> int" where
  "binade a =
     (if 1 \<le> a then int (bit_length (nat \<lfloor>a\<rfloor>)) - 1
      else - int (bit_length (nat (\<lceil>1 / a\<rceil> - 1))))"

definition round_half_even :: "rat \<Rightarrow> int" where
  "round_half_even q =
     (let f = \<lfloor>q\<rfloor>; d = q - of_int f
      in if d < 1 / 2 then f else if 1 / 2 < d then f + 1 else if even f then f else f + 1)"

text \<open>
  Rounding of an exact result to binary64, to nearest with ties to even: 53
  significant bits, exponents from -1022 (below that the spacing stays \<open>2 ^ -1074\<close>),
  and an infinity once the rounded magnitude reaches \<open>2 ^ 1024\<close>.
\<close>

definition round_double :: "rat \<Rightarrow> number" where
  "round_double x =
     (if x = 0 then Finite 0
      else
        (let a = \<bar>x\<bar>;
             e = max (binade a) (- 1022);
             ulp = pow2 (e - 52);
             y = of_int (round_half_even (a / ulp)) * ulp
         in if pow2 1024 \<le> y then (if 0 < x then PosInfinity else NegInfinity)
            else Finite (if 0 < x then y else - y)))"

definition sign_of :: "number \<Rightarrow> int" where
  "sign_of v = (case v of NaN \<Rightarrow> 0 | PosInfinity \<Rightarrow> 1 | NegInfinity \<Rightarrow> - 1
                | Finite a \<Rightarrow> (if 0 < a then 1 else if a < 0 then - 1 else 0))"

text \<open>
  The operator \<open>*\<close> on numbers: the exact product of two finite doubles rounded to
  binary64; NaN for a NaN operand and for zero times an infinity; otherwise the
  infinity of the product's sign.
\<close>

definition times_js :: "number \<Rightarrow> number \<Rightarrow> number" where
  "times_js v w =
     (if v = NaN \<or> w = NaN then NaN
      else case v of
             Finite a \<Rightarrow>
               (case w of
                  Finite b \<Rightarrow> round_double (a * b)
                | _ \<Rightarrow> if a = 0 then NaN
                       else if 0 < sign_of v * sign_of w then PosInfinity else NegInfinity)
           | _ \<Rightarrow> if sign_of w = 0 then NaN
                  else if 0 < sign_of v * sign_of w then PosInfinity else NegInfinity)"

text \<open>
  JavaScript's numeric conversion of the right operand of \<open>*\<close>. The conversion of
  strings, arrays and objects is the engine's and is taken as the parameter \<open>conv\<close>.
\<close>

fun toNumber :: "(json \<Rightarrow> number) \<Rightarrow> json option \<Rightarrow> number" where
  "toNumber conv None = NaN"
| "toNumber conv (Some JNull) = Finite 0"
| "toNumber conv (Some (JBool b)) = Finite (if b then 1 else 0)"
| "toNumber conv (Some (JNumber n)) = Finite n"
| "toNumber conv (Some v) = conv v"

section \<open>Requests and responses\<close>

record request =
  req_cookies :: "string \<rightharpoonup> string"
  req_authorization :: "string option"
  req_hotelId :: string
  req_body :: body

text \<open>
  The responses the handlers send. \<open>No_response\<close> is a handler whose promise rejected
  outside any \<open>try\<close>: nothing is sent.
\<close>

datatype response =
    Status_message nat string
  | Status_message_details nat string string
  | Status_empty nat
  | Payment_intent_created string string number
  | Status_errors nat
  | User_registered string string string
  | No_response

section \<open>Outbound email (sendEmail)\<close>

text \<open>
  The HTML of a message is a template literal over request and document fields; it is
  kept as the template's name with the interpolated values. The transport either
  resolves or rejects: \<open>sendEmail\<close> awaits it and has no handler of its own, so a
  rejection propagates to the caller.
\<close>

datatype html =
    Booking_confirmation_html "json option" string string "json option" "json option" "json option"
  | Verify_email_html "json option" string

record mail =
  mail_to :: "json option"
  mail_subject :: string
  mail_html :: html

datatype 'a outcome = Rejected | Resolved 'a

definition sendEmail :: "(mail \<Rightarrow> bool) \<Rightarrow> mail \<Rightarrow> unit outcome" where
  "sendEmail sendMail m = (if sendMail m then Resolved () else Rejected)"

section \<open>Identity token verifier (middleware/auth.ts)\<close>

datatype jwt_error = TokenExpiredError | JsonWebTokenError | OtherJwtError

text \<open>\<open>String.prototype.split\<close> with a one-character separator.\<close>

fun split_on :: "char \<Rightarrow> string \<Rightarrow> string list" where
  "split_on c [] = [[]]"
| "split_on c (x # xs) =
     (if x = c then [] # split_on c xs
      else (case split_on c xs of [] \<Rightarrow> [[x]] | w # ws \<Rightarrow> (x # w) # ws))"

definition nth_opt :: "'a list \<Rightarrow> nat \<Rightarrow> 'a option" where
  "nth_opt xs i = (if i < length xs then Some (xs ! i) else None)"

definition request_token :: "request \<Rightarrow> string option" where
  "request_token req =
     (let header_token =
            (case req_authorization req of
               None \<Rightarrow> None
             | Some h \<Rightarrow> nth_opt (split_on (CHR '' '') h) 1)
      in case req_cookies req ''auth_token'' of
           None \<Rightarrow> header_token
         | Some c \<Rightarrow> if c \<noteq> [] then Some c else header_token)"

text \<open>
  \<open>verifyToken\<close> either answers 401 itself (\<open>Inl\<close>) or sets \<open>req.userId\<close> and calls
  \<open>next\<close> (\<open>Inr\<close> the user id). \<open>jwt.verify\<close> with the server's key is the parameter
  \<open>jwt_verify\<close>; it yields the \<open>userId\<close> of the decoded payload.
\<close>

definition verifyToken :: "(string \<Rightarrow> jwt_error + string) \<Rightarrow> request \<Rightarrow> response + string" where
  "verifyToken jwt_verify req =
     (case request_token req of
        None \<Rightarrow> Inl (Status_message_details 401 ''Authentication required''
                        ''No token provided in cookies or Authorization header'')
      | Some token \<Rightarrow>
          if token = [] then
            Inl (Status_message_details 401 ''Authentication required''
                   ''No token provided in cookies or Authorization header'')
          else
            (case jwt_verify token of
               Inr userId \<Rightarrow> Inr userId
             | Inl TokenExpiredError \<Rightarrow> Inl (Status_message 401 ''Token expired'')
             | Inl JsonWebTokenError \<Rightarrow> Inl (Status_message 401 ''Malformed token'')
             | Inl OtherJwtError \<Rightarrow> Inl (Status_message 401 ''Invalid token'')))"

section \<open>Hotels and the payment provider (routes/hotels.ts)\<close>

text \<open>
  A booking is the object \<open>{...req.body, userId: req.userId}\<close>. A hotel document
  carries its id, name, nightly price and booking array; the collection is a list of
  documents.
\<close>

type_synonym booking = "string \<rightharpoonup> json"

record hotel =
  hotel_id :: string
  hotel_name :: string
  pricePerNight :: rat
  bookings :: "booking list"

record paymentIntent =
  pi_id :: string
  pi_client_secret :: "string option"
  pi_status :: string
  pi_metadata :: "string \<rightharpoonup> string"

record paymentIntentParams =
  pp_amount :: number
  pp_currency :: string
  pp_metadata :: "string \<rightharpoonup> string"

text \<open>
  The collaborators of a request: the payment provider's two calls, the mail
  transport, the token check and signing, the engine's string-to-number conversion,
  the two library validators of the registration form, and the id the store gives
  a new document.
\<close>

record env =
  stripe_create :: "paymentIntentParams \<Rightarrow> paymentIntent outcome"
  stripe_retrieve :: "json option \<Rightarrow> paymentIntent option outcome"
  sendMail :: "mail \<Rightarrow> bool"
  jwt_verify :: "string \<Rightarrow> jwt_error + string"
  jwt_sign :: "string \<Rightarrow> string"
  number_of :: "json \<Rightarrow> number"
  isEmail :: "json option \<Rightarrow> bool"
  isLength_min6 :: "json option \<Rightarrow> bool"
  new_id :: string

definition findById :: "hotel list \<Rightarrow> string \<Rightarrow> hotel option" where
  "findById hotels hid = find (\<lambda>h. hotel_id h = hid) hotels"

text \<open>
  \<open>Hotel.findOneAndUpdate({_id}, {$push: {bookings: b}})\<close>: the first document with
  that id gets the booking appended; the document as it was before the update is
  returned, or nothing when no document matches.
\<close>

fun findOneAndUpdate_push :: "hotel list \<Rightarrow> string \<Rightarrow> booking \<Rightarrow> hotel option \<times> hotel list" where
  "findOneAndUpdate_push [] hid b = (None, [])"
| "findOneAndUpdate_push (h # hs) hid b =
     (if hotel_id h = hid then (Some h, h\<lparr>bookings := bookings h @ [b]\<rparr> # hs)
      else (case findOneAndUpdate_push hs hid b of (r, hs') \<Rightarrow> (r, h # hs')))"

text \<open>Phase 1: POST /:hotelId/bookings/payment-intent, after \<open>verifyToken\<close>.\<close>

definition payment_intent_handler :: "env \<Rightarrow> hotel list \<Rightarrow> request \<Rightarrow> string \<Rightarrow> response" where
  "payment_intent_handler e hotels req userId =
     (let numberOfNights = req_body req ''numberOfNights'';
          hotelId = req_hotelId req
      in case findById hotels hotelId of
           None \<Rightarrow> Status_message 400 ''Hotel not found''
         | Some hotel \<Rightarrow>
             (let totalCost = times_js (Finite (pricePerNight hotel)) (toNumber (number_of e) numberOfNights)
              in case stripe_create e
                        \<lparr>pp_amount = times_js totalCost (Finite 100),
                         pp_currency = ''gbp'',
                         pp_metadata = [''hotelId'' \<mapsto> hotelId, ''userId'' \<mapsto> userId]\<rparr> of
                   Rejected \<Rightarrow> No_response
                 | Resolved paymentIntent \<Rightarrow>
                     (case pi_client_secret paymentIntent of
                        None \<Rightarrow> Status_message 500 ''Error creating payment intent''
                      | Some secret \<Rightarrow>
                          if secret = [] then Status_message 500 ''Error creating payment intent''
                          else Payment_intent_created (pi_id paymentIntent) secret totalCost)))"

definition post_payment_intent :: "env \<Rightarrow> hotel list \<Rightarrow> request \<Rightarrow> response" where
  "post_payment_intent e hotels req =
     (case verifyToken (jwt_verify e) req of
        Inl r \<Rightarrow> r
      | Inr userId \<Rightarrow> payment_intent_handler e hotels req userId)"

text \<open>
  The confirmation message of phase 2: addressed to the body's \<open>email\<close>, naming the
  hotel document's \<open>name\<close>.
\<close>

definition booking_confirmation_mail :: "request \<Rightarrow> string \<Rightarrow> mail" where
  "booking_confirmation_mail req name =
     \<lparr>mail_to = req_body req ''email'',
      mail_subject = ''Booking Confirmation'',
      mail_html = Booking_confirmation_html
        (req_body req ''firstName'') name (req_hotelId req)
        (req_body req ''checkIn'') (req_body req ''checkOut'') (req_body req ''totalCost'')\<rparr>"

text \<open>
  Phase 2: POST /:hotelId/bookings, after \<open>verifyToken\<close>. The handler's body is one
  \<open>try\<close>; every rejection inside it (provider, mail transport) is answered with
  500 by the \<open>catch\<close>, which undoes nothing. \<open>hotel.save()\<close> is called on the
  unmodified document that \<open>findOneAndUpdate\<close> returned and writes nothing.
\<close>

definition bookings_handler :: "env \<Rightarrow> hotel list \<Rightarrow> request \<Rightarrow> string \<Rightarrow> response \<times> hotel list" where
  "bookings_handler e hotels req userId =
     (case stripe_retrieve e (req_body req ''paymentIntentId'') of
        Rejected \<Rightarrow> (Status_message 500 ''something went wrong'', hotels)
      | Resolved None \<Rightarrow> (Status_message 400 ''payment intent not found'', hotels)
      | Resolved (Some paymentIntent) \<Rightarrow>
          if pi_metadata paymentIntent ''hotelId'' \<noteq> Some (req_hotelId req) \<or>
             pi_metadata paymentIntent ''userId'' \<noteq> Some userId
          then (Status_message 400 ''payment intent mismatch'', hotels)
          else if pi_status paymentIntent \<noteq> ''succeeded''
          then (Status_message 400
                  (''payment intent not succeeded. Status: '' @ pi_status paymentIntent), hotels)
          else
            (let newBooking = (req_body req)(''userId'' \<mapsto> JString userId)
             in case findOneAndUpdate_push hotels (req_hotelId req) newBooking of
                  (None, hotels') \<Rightarrow> (Status_message 400 ''hotel not found'', hotels')
                | (Some hotel, hotels') \<Rightarrow>
                    (case sendEmail (sendMail e) (booking_confirmation_mail req (hotel_name hotel)) of
                       Rejected \<Rightarrow> (Status_message 500 ''something went wrong'', hotels')
                     | Resolved u \<Rightarrow> (Status_empty 200, hotels'))))"

definition post_bookings :: "env \<Rightarrow> hotel list \<Rightarrow> request \<Rightarrow> response \<times> hotel list" where
  "post_bookings e hotels req =
     (case verifyToken (jwt_verify e) req of
        Inl r \<Rightarrow> (r, hotels)
      | Inr userId \<Rightarrow> bookings_handler e hotels req userId)"

text \<open>All booking records of a collection, hotel by hotel.\<close>

definition all_bookings :: "hotel list \<Rightarrow> booking list" where
  "all_bookings hotels = concat (map bookings hotels)"

text \<open>The booking array of the document \<open>findById\<close> finds, empty when there is none.\<close>

definition bookings_of :: "hotel list \<Rightarrow> string \<Rightarrow> booking list" where
  "bookings_of hotels hid = (case findById hotels hid of None \<Rightarrow> [] | Some h \<Rightarrow> bookings h)"

section \<open>Accounts and one-time passcodes (the user router)\<close>

text \<open>
  \<open>crypto.randomInt(min, max)\<close> returns \<open>min\<close> plus the accepted random draw reduced
  modulo \<open>max - min\<close>: \<open>min\<close> is inclusive and \<open>max\<close> is exclusive. The draw is the
  parameter \<open>x\<close>.
\<close>

definition randomInt :: "int \<Rightarrow> int \<Rightarrow> nat \<Rightarrow> int" where
  "randomInt lo hi x = lo + int (x mod nat (hi - lo))"

text \<open>\<open>Number.prototype.toString\<close> on an integer: its decimal digits.\<close>

definition digit_char :: "nat \<Rightarrow> char" where
  "digit_char d = ''0123456789'' ! d"

fun dec :: "nat \<Rightarrow> string" where
  "dec n = (if n < 10 then [digit_char n] else dec (n div 10) @ [digit_char (n mod 10)])"

declare dec.simps [simp del]

definition toString :: "int \<Rightarrow> string" where
  "toString i = (if i < 0 then CHR ''-'' # dec (nat (- i)) else dec (nat i))"

definition generateOtp :: "nat \<Rightarrow> string" where
  "generateOtp x = toString (randomInt 100000 999999 x)"

text \<open>
  A user document: its id, its email, the other fields of the registration body, the
  passcode and its expiry (milliseconds since the epoch), and the verified flag. Emails
  are strings; a query value that is not a string matches no document. A found
  document is handed out with its position, and \<open>save\<close> writes it back there.
\<close>

record user =
  user_id :: string
  user_email :: string
  user_profile :: body
  otp :: "string option"
  otpExpiry :: "int option"
  isVerified :: bool

fun findOne_from :: "nat \<Rightarrow> user list \<Rightarrow> json option \<Rightarrow> (nat \<times> user) option" where
  "findOne_from i [] q = None"
| "findOne_from i (u # us) q =
     (if q = Some (JString (user_email u)) then Some (i, u) else findOne_from (Suc i) us q)"

definition findOne :: "user list \<Rightarrow> json option \<Rightarrow> (nat \<times> user) option" where
  "findOne users q = findOne_from 0 users q"

definition save :: "user list \<Rightarrow> nat \<Rightarrow> user \<Rightarrow> user list" where
  "save users i u = users[i := u]"

definition isString :: "json option \<Rightarrow> bool" where
  "isString v = (case v of Some (JString s) \<Rightarrow> True | _ \<Rightarrow> False)"

definition register_validation :: "env \<Rightarrow> body \<Rightarrow> bool" where
  "register_validation e b =
     (isString (b ''firstName'') \<and> isString (b ''lastName'') \<and>
      isEmail e (b ''email'') \<and> isLength_min6 e (b ''password''))"

text \<open>
  POST /register. \<open>now\<close> is \<open>Date.now()\<close> and \<open>x\<close> the random draw. The new
  document spreads the body first, so \<open>otp\<close>, \<open>otpExpiry\<close> and \<open>isVerified\<close> are the
  handler's own values whatever the body holds. The document is saved before the mail
  is sent; a rejected mail is answered with 500 by the \<open>catch\<close>.
\<close>

definition register_handler :: "env \<Rightarrow> int \<Rightarrow> nat \<Rightarrow> user list \<Rightarrow> request \<Rightarrow> response \<times> user list" where
  "register_handler e now x users req =
     (if \<not> register_validation e (req_body req) then (Status_errors 400, users)
      else
        (case findOne users (req_body req ''email'') of
           Some found \<Rightarrow> (Status_message 400 ''User already exists'', users)
         | None \<Rightarrow>
             (case req_body req ''email'' of
                Some (JString email) \<Rightarrow>
                  (let code = generateOtp x;
                       u = \<lparr>user_id = new_id e, user_email = email, user_profile = req_body req,
                            otp = Some code, otpExpiry = Some (now + 10 * 60 * 1000),
                            isVerified = False\<rparr>;
                       users' = users @ [u]
                   in case sendEmail (sendMail e)
                             \<lparr>mail_to = Some (JString (user_email u)),
                              mail_subject = ''Verify your email'',
                              mail_html = Verify_email_html (user_profile u ''firstName'') code\<rparr> of
                        Rejected \<Rightarrow> (Status_message 500 ''Something went wrong'', users')
                      | Resolved d \<Rightarrow>
                          (User_registered (user_email u) (user_id u) (jwt_sign e (user_id u)), users'))
              | _ \<Rightarrow> (Status_message 500 ''Something went wrong'', users))))"

text \<open>POST /verify-email. \<open>now\<close> is the instant of \<open>new Date()\<close>.\<close>

definition verify_email_handler :: "int \<Rightarrow> user list \<Rightarrow> request \<Rightarrow> response \<times> user list" where
  "verify_email_handler now users req =
     (let email = req_body req ''email'';
          submitted = req_body req ''otp''
      in case findOne users email of
           None \<Rightarrow> (Status_message 400 ''User not found'', users)
         | Some (i, u) \<Rightarrow>
             if isVerified u then (Status_message 400 ''Email already verified'', users)
             else
               (case (otp u, otpExpiry u) of
                  (Some code, Some expiry) \<Rightarrow>
                    if code = [] then (Status_message 400 ''OTP not generated for this user'', users)
                    else if Some (JString code) \<noteq> submitted then (Status_message 400 ''Invalid OTP'', users)
                    else if expiry < now then (Status_message 400 ''OTP expired'', users)
                    else
                      (Status_message 200 ''Email verified successfully'',
                       save users i (u\<lparr>isVerified := True, otp := None, otpExpiry := None\<rparr>))
                | _ \<Rightarrow> (Status_message 400 ''OTP not generated for this user'', users)))"

text \<open>POST /resend-otp.\<close>

definition resend_otp_handler :: "env \<Rightarrow> int \<Rightarrow> nat \<Rightarrow> user list \<Rightarrow> request \<Rightarrow> response \<times> user list" where
  "resend_otp_handler e now x users req =
     (let email = req_body req ''email''
      in if \<not> truthy email then (Status_message 400 ''Email is required'', users)
         else
           (case findOne users email of
              None \<Rightarrow> (Status_message 400 ''User not found'', users)
            | Some (i, u) \<Rightarrow>
                if isVerified u then (Status_message 400 ''Email is already verified'', users)
                else
                  (let newOtp = generateOtp x;
                       u' = u\<lparr>otp := Some newOtp, otpExpiry := Some (now + 10 * 60 * 1000)\<rparr>;
                       users' = save users i u'
                   in case sendEmail (sendMail e)
                             \<lparr>mail_to = Some (JString (user_email u')),
                              mail_subject = ''Resend OTP - Verify your email'',
                              mail_html = Verify_email_html (user_profile u' ''firstName'') newOtp\<rparr> of
                        Rejected \<Rightarrow> (Status_message 500 ''Something went wrong'', users')
                      | Resolved d \<Rightarrow> (Status_message 200 ''OTP resent successfully'', users'))))"

text \<open>
  The user collections the three endpoints can produce, starting from the empty
  collection.
\<close>

inductive reachable :: "user list \<Rightarrow> bool" where
  reachable_empty: "reachable []"
| reachable_register: "reachable us \<Longrightarrow> reachable (snd (register_handler e now x us req))"
| reachable_verify: "reachable us \<Longrightarrow> reachable (snd (verify_email_handler now us req))"
| reachable_resend: "reachable us \<Longrightarrow> reachable (snd (resend_otp_handler e now x us req))"

text \<open>The passcode and its expiry are both present or both absent.\<close>

definition otp_consistent :: "user \<Rightarrow> bool" where
  "otp_consistent u = ((otp u = None) = (otpExpiry u = None))"

text \<open>The identity a query finds is in the Verified state.\<close>

definition verified :: "user list \<Rightarrow> json option \<Rightarrow> bool" where
  "verified users q = (case findOne users q of None \<Rightarrow> False | Some (i, u) \<Rightarrow> isVerified u)"

section \<open>Sample collaborators and requests\<close>

text \<open>
  Concrete values at which the theorems below are instantiated: a token check that
  accepts one token for user \<open>u1\<close>, a provider whose answers are given, a mail
  transport that always delivers or always rejects, two hotels, and a signed-in
  request for hotel \<open>h1\<close>.
\<close>

definition sample_jwt_verify :: "string \<Rightarrow> jwt_error + string" where
  "sample_jwt_verify t = (if t = ''token-of-u1'' then Inr ''u1'' else Inl JsonWebTokenError)"

definition sample_intent :: "string \<Rightarrow> string \<Rightarrow> string \<Rightarrow> paymentIntent" where
  "sample_intent hid uid st =
     \<lparr>pi_id = ''pi_1'', pi_client_secret = Some ''pi_1_secret'', pi_status = st,
      pi_metadata = [''hotelId'' \<mapsto> hid, ''userId'' \<mapsto> uid]\<rparr>"

definition sample_env :: "paymentIntent option outcome \<Rightarrow> bool \<Rightarrow> env" where
  "sample_env retrieved delivered =
     \<lparr>stripe_create = (\<lambda>p. Resolved
         \<lparr>pi_id = ''pi_1'', pi_client_secret = Some ''pi_1_secret'',
          pi_status = ''requires_payment_method'', pi_metadata = pp_metadata p\<rparr>),
      stripe_retrieve = (\<lambda>i. retrieved),
      sendMail = (\<lambda>m. delivered),
      jwt_verify = sample_jwt_verify,
      jwt_sign = (\<lambda>u. ''token-of-'' @ u),
      number_of = (\<lambda>v. NaN),
      isEmail = (\<lambda>v. case v of Some (JString s) \<Rightarrow> CHR ''@'' \<in> set s | _ \<Rightarrow> False),
      isLength_min6 = (\<lambda>v. case v of Some (JString s) \<Rightarrow> 6 \<le> length s | _ \<Rightarrow> False),
      new_id = ''u1''\<rparr>"

definition sample_hotels :: "hotel list" where
  "sample_hotels =
     [\<lparr>hotel_id = ''h1'', hotel_name = ''Sea View'', pricePerNight = 100, bookings = []\<rparr>,
      \<lparr>hotel_id = ''h2'', hotel_name = ''Hill Top'', pricePerNight = 80, bookings = []\<rparr>]"

definition sample_request :: "body \<Rightarrow> request" where
  "sample_request b =
     \<lparr>req_cookies = [''auth_token'' \<mapsto> ''token-of-u1''], req_authorization = None,
      req_hotelId = ''h1'', req_body = b\<rparr>"

text \<open>
  A provider that creates an intent only for one amount, and a hotel whose nightly
  price is a large integer below \<open>2 ^ 53\<close>.
\<close>

definition sample_env_amount :: "number \<Rightarrow> env" where
  "sample_env_amount a =
     (sample_env Rejected True)
       \<lparr>stripe_create :=
          (\<lambda>p. if pp_amount p = a
               then Resolved (sample_intent ''h1'' ''u1'' ''requires_payment_method'')
               else Rejected)\<rparr>"

definition costly_hotels :: "hotel list" where
  "costly_hotels =
     [\<lparr>hotel_id = ''h1'', hotel_name = ''Sea View'', pricePerNight = 3002399751580331,
       bookings = []\<rparr>]"

definition booking_body :: body where
  "booking_body =
     [''paymentIntentId'' \<mapsto> JString ''pi_1'', ''email'' \<mapsto> JString ''u1@example.com'',
      ''firstName'' \<mapsto> JString ''Una'', ''totalCost'' \<mapsto> JNumber 300]"

definition register_body :: body where
  "register_body =
     [''firstName'' \<mapsto> JString ''Una'', ''lastName'' \<mapsto> JString ''Doe'',
      ''email'' \<mapsto> JString ''u1@example.com'', ''password'' \<mapsto> JString ''secret1'']"

definition otp_body :: "string \<Rightarrow> body" where
  "otp_body code = [''email'' \<mapsto> JString ''u1@example.com'', ''otp'' \<mapsto> JString code]"

section \<open>Facts about the hotel store\<close>

lemma verifyToken_sample: "verifyToken (jwt_verify (sample_env r d)) (sample_request b) = Inr ''u1''"
  by (simp add: verifyToken_def request_token_def sample_env_def sample_request_def sample_jwt_verify_def)

lemma findOneAndUpdate_push_None:
  "findById hotels hid = None \<Longrightarrow> findOneAndUpdate_push hotels hid b = (None, hotels)"
  by (induction hotels) (auto simp: findById_def split: if_splits)

lemma findOneAndUpdate_push_fst:
  "fst (findOneAndUpdate_push hotels hid b) = findById hotels hid"
  by (induction hotels) (auto simp: findById_def split: prod.splits)

lemma findOneAndUpdate_push_Some:
  "findById hotels hid = Some h \<Longrightarrow>
     findById (snd (findOneAndUpdate_push hotels hid b)) hid = Some (h\<lparr>bookings := bookings h @ [b]\<rparr>)"
  by (induction hotels) (auto simp: findById_def split: prod.splits if_splits)

lemma findOneAndUpdate_push_length:
  "findById hotels hid = Some h \<Longrightarrow>
     length (all_bookings (snd (findOneAndUpdate_push hotels hid b))) = Suc (length (all_bookings hotels))"
  by (induction hotels) (auto simp: findById_def all_bookings_def split: prod.splits if_splits)

lemma findOneAndUpdate_push_set:
  "set (all_bookings (snd (findOneAndUpdate_push hotels hid b))) \<subseteq> insert b (set (all_bookings hotels))"
proof (induction hotels)
  case Nil
  show ?case by (simp add: all_bookings_def)
next
  case (Cons h hs)
  show ?case
  proof (cases "hotel_id h = hid")
    case True
    then show ?thesis by (auto simp: all_bookings_def)
  next
    case False
    then have "all_bookings (snd (findOneAndUpdate_push (h # hs) hid b))
                 = bookings h @ all_bookings (snd (findOneAndUpdate_push hs hid b))"
      by (simp add: all_bookings_def split: prod.splits)
    moreover have "all_bookings (h # hs) = bookings h @ all_bookings hs"
      by (simp add: all_bookings_def)
    ultimately show ?thesis using Cons.IH by auto
  qed
qed

text \<open>
  When the provider resolves a succeeded intent whose metadata matches and the hotel
  exists, the booking is pushed and the answer depends on the mail transport alone.
\<close>

lemma bookings_handler_pass:
  assumes "stripe_retrieve e (req_body req ''paymentIntentId'') = Resolved (Some p)"
    and "pi_metadata p ''hotelId'' = Some (req_hotelId req)"
    and "pi_metadata p ''userId'' = Some userId"
    and "pi_status p = ''succeeded''"
    and "findById hotels (req_hotelId req) = Some h"
  shows "bookings_handler e hotels req userId =
           (if sendMail e (booking_confirmation_mail req (hotel_name h))
            then Status_empty 200 else Status_message 500 ''something went wrong'',
            snd (findOneAndUpdate_push hotels (req_hotelId req) ((req_body req)(''userId'' \<mapsto> JString userId))))"
proof -
  let ?b = "(req_body req)(''userId'' \<mapsto> JString userId)"
  obtain r hs where push: "findOneAndUpdate_push hotels (req_hotelId req) ?b = (r, hs)"
    by (cases "findOneAndUpdate_push hotels (req_hotelId req) ?b")
  have "r = Some h"
    using findOneAndUpdate_push_fst [of hotels "req_hotelId req" ?b] push assms(5) by simp
  with push assms(1-4) show ?thesis
    by (simp add: bookings_handler_def sendEmail_def)
qed

lemma bookings_handler_unchanged_or_pushed:
  "snd (bookings_handler e hotels req userId) = hotels \<or>
   snd (bookings_handler e hotels req userId) =
     snd (findOneAndUpdate_push hotels (req_hotelId req) ((req_body req)(''userId'' \<mapsto> JString userId)))"
  by (auto simp: bookings_handler_def Let_def findOneAndUpdate_push_None
      split: outcome.splits option.splits prod.splits)

lemma sample_post_bookings_pass:
  "post_bookings (sample_env (Resolved (Some (sample_intent ''h1'' ''u1'' ''succeeded''))) d)
      sample_hotels (sample_request b)
   = (if d then Status_empty 200 else Status_message 500 ''something went wrong'',
      [\<lparr>hotel_id = ''h1'', hotel_name = ''Sea View'', pricePerNight = 100,
         bookings = [b(''userId'' \<mapsto> JString ''u1'')]\<rparr>,
       \<lparr>hotel_id = ''h2'', hotel_name = ''Hill Top'', pricePerNight = 80, bookings = []\<rparr>])"
proof -
  have "bookings_handler (sample_env (Resolved (Some (sample_intent ''h1'' ''u1'' ''succeeded''))) d)
          sample_hotels (sample_request b) ''u1''
        = (if d then Status_empty 200 else Status_message 500 ''something went wrong'',
           [\<lparr>hotel_id = ''h1'', hotel_name = ''Sea View'', pricePerNight = 100,
              bookings = [b(''userId'' \<mapsto> JString ''u1'')]\<rparr>,
            \<lparr>hotel_id = ''h2'', hotel_name = ''Hill Top'', pricePerNight = 80, bookings = []\<rparr>])"
    by (simp add: bookings_handler_def sendEmail_def sample_env_def sample_intent_def
          sample_request_def sample_hotels_def)
  then show ?thesis
    by (simp add: post_bookings_def verifyToken_sample)
qed

section \<open>Phase 2: the context check\<close>

text \<open>
  Claim C1. When the provider resolves the payment intent and its metadata's hotelId
  or userId differs from the request's hotel id or from the identity of the verified
  token, the request is answered 400 ``payment intent mismatch'' and the whole hotel
  collection is left as it was: no booking is appended to any hotel.
\<close>

theorem context_mismatch_rejected:
  assumes "verifyToken (jwt_verify e) req = Inr userId"
    and "stripe_retrieve e (req_body req ''paymentIntentId'') = Resolved (Some paymentIntent)"
    and "pi_metadata paymentIntent ''hotelId'' \<noteq> Some (req_hotelId req) \<or>
         pi_metadata paymentIntent ''userId'' \<noteq> Some userId"
  shows "post_bookings e hotels req = (Status_message 400 ''payment intent mismatch'', hotels)"
  using assms by (auto simp: post_bookings_def bookings_handler_def)

text \<open>
  An intent paid by \<open>u1\<close> for hotel \<open>h2\<close>, replayed against hotel \<open>h1\<close>.
\<close>

theorem context_mismatch_rejected_witness:
  "post_bookings (sample_env (Resolved (Some (sample_intent ''h2'' ''u1'' ''succeeded''))) True)
      sample_hotels (sample_request booking_body)
   = (Status_message 400 ''payment intent mismatch'', sample_hotels)"
  by (rule context_mismatch_rejected
        [where userId = "''u1''" and paymentIntent = "sample_intent ''h2'' ''u1'' ''succeeded''"])
     (simp_all add: verifyToken_sample, simp_all add: sample_env_def sample_intent_def sample_request_def)

section \<open>Phase 2: the confirmation mail\<close>

text \<open>
  The mail is awaited inside the handler's \<open>try\<close>. At the sample request, with a
  transport that rejects, the booking is in the hotel's array and the answer is 500.
\<close>

theorem mail_failure_reported_counterexample:
  "fst (post_bookings (sample_env (Resolved (Some (sample_intent ''h1'' ''u1'' ''succeeded''))) False)
          sample_hotels (sample_request booking_body))
     = Status_message 500 ''something went wrong'' \<and>
   bookings_of (snd (post_bookings (sample_env (Resolved (Some (sample_intent ''h1'' ''u1'' ''succeeded''))) False)
          sample_hotels (sample_request booking_body))) ''h1''
     = [booking_body(''userId'' \<mapsto> JString ''u1'')]"
  by (simp add: sample_post_bookings_pass bookings_of_def findById_def)

text \<open>
  Claim C2, amended. When all checks pass and the booking has been appended, a
  rejected confirmation mail does not roll the booking back: the hotel's array ends
  with the new record and the collection holds one record more. The request is
  nevertheless answered 500 ``something went wrong''.
\<close>

theorem mail_failure_keeps_booking_reports_500:
  assumes "verifyToken (jwt_verify e) req = Inr userId"
    and "stripe_retrieve e (req_body req ''paymentIntentId'') = Resolved (Some p)"
    and "pi_metadata p ''hotelId'' = Some (req_hotelId req)"
    and "pi_metadata p ''userId'' = Some userId"
    and "pi_status p = ''succeeded''"
    and "findById hotels (req_hotelId req) = Some h"
    and "\<not> sendMail e (booking_confirmation_mail req (hotel_name h))"
  shows "fst (post_bookings e hotels req) = Status_message 500 ''something went wrong'' \<and>
         bookings_of (snd (post_bookings e hotels req)) (req_hotelId req)
           = bookings h @ [(req_body req)(''userId'' \<mapsto> JString userId)] \<and>
         length (all_bookings (snd (post_bookings e hotels req))) = Suc (length (all_bookings hotels))"
  using assms
  by (simp add: post_bookings_def bookings_handler_pass [OF assms(2-6)] bookings_of_def
        findOneAndUpdate_push_Some findOneAndUpdate_push_length)

text \<open>The sample request with a rejecting transport.\<close>

theorem mail_failure_keeps_booking_reports_500_witness:
  "fst (post_bookings (sample_env (Resolved (Some (sample_intent ''h1'' ''u1'' ''succeeded''))) False)
          sample_hotels (sample_request booking_body))
     = Status_message 500 ''something went wrong'' \<and>
   length (all_bookings (snd (post_bookings
          (sample_env (Resolved (Some (sample_intent ''h1'' ''u1'' ''succeeded''))) False)
          sample_hotels (sample_request booking_body))))
     = Suc (length (all_bookings sample_hotels))"
proof -
  let ?e = "sample_env (Resolved (Some (sample_intent ''h1'' ''u1'' ''succeeded''))) False"
  let ?h = "\<lparr>hotel_id = ''h1'', hotel_name = ''Sea View'', pricePerNight = 100, bookings = []\<rparr>"
  have 1: "verifyToken (jwt_verify ?e) (sample_request booking_body) = Inr ''u1''"
    by (rule verifyToken_sample)
  have 2: "stripe_retrieve ?e (req_body (sample_request booking_body) ''paymentIntentId'')
             = Resolved (Some (sample_intent ''h1'' ''u1'' ''succeeded''))"
    by (simp add: sample_env_def)
  have 3: "pi_metadata (sample_intent ''h1'' ''u1'' ''succeeded'') ''hotelId''
             = Some (req_hotelId (sample_request booking_body))"
    by (simp add: sample_intent_def sample_request_def)
  have 4: "pi_metadata (sample_intent ''h1'' ''u1'' ''succeeded'') ''userId'' = Some ''u1''"
    by (simp add: sample_intent_def)
  have 5: "pi_status (sample_intent ''h1'' ''u1'' ''succeeded'') = ''succeeded''"
    by (simp add: sample_intent_def)
  have 6: "findById sample_hotels (req_hotelId (sample_request booking_body)) = Some ?h"
    by (simp add: findById_def sample_hotels_def sample_request_def)
  have 7: "\<not> sendMail ?e (booking_confirmation_mail (sample_request booking_body) (hotel_name ?h))"
    by (simp add: sample_env_def)
  from mail_failure_keeps_booking_reports_500 [OF 1 2 3 4 5 6 7] show ?thesis by simp
qed

section \<open>Phase 2: repeated confirmations\<close>

lemma post_bookings_pass:
  assumes "verifyToken (jwt_verify e) req = Inr userId"
    and "stripe_retrieve e (req_body req ''paymentIntentId'') = Resolved (Some p)"
    and "pi_metadata p ''hotelId'' = Some (req_hotelId req)"
    and "pi_metadata p ''userId'' = Some userId"
    and "pi_status p = ''succeeded''"
    and "findById hotels (req_hotelId req) = Some h"
  shows "post_bookings e hotels req =
           (if sendMail e (booking_confirmation_mail req (hotel_name h))
            then Status_empty 200 else Status_message 500 ''something went wrong'',
            snd (findOneAndUpdate_push hotels (req_hotelId req) ((req_body req)(''userId'' \<mapsto> JString userId))))"
  by (simp add: post_bookings_def assms(1) bookings_handler_pass [OF assms(2-6)])

lemma repeated_bookings_findById:
  assumes "verifyToken (jwt_verify e) req = Inr userId"
    and "stripe_retrieve e (req_body req ''paymentIntentId'') = Resolved (Some p)"
    and "pi_metadata p ''hotelId'' = Some (req_hotelId req)"
    and "pi_metadata p ''userId'' = Some userId"
    and "pi_status p = ''succeeded''"
    and "findById hotels (req_hotelId req) = Some h"
  shows "findById (((\<lambda>s. snd (post_bookings e s req)) ^^ n) hotels) (req_hotelId req)
           = Some (h\<lparr>bookings := bookings h @ replicate n ((req_body req)(''userId'' \<mapsto> JString userId))\<rparr>)
         \<and> length (all_bookings (((\<lambda>s. snd (post_bookings e s req)) ^^ n) hotels))
           = length (all_bookings hotels) + n"
proof -
  define b where "b = (req_body req)(''userId'' \<mapsto> JString userId)"
  define step where "step = (\<lambda>s. snd (post_bookings e s req))"
  have "findById ((step ^^ n) hotels) (req_hotelId req) = Some (h\<lparr>bookings := bookings h @ replicate n b\<rparr>)
         \<and> length (all_bookings ((step ^^ n) hotels)) = length (all_bookings hotels) + n"
  proof (induction n)
    case 0
    show ?case using assms(6) by simp
  next
    case (Suc n)
    let ?s = "(step ^^ n) hotels"
    let ?h = "h\<lparr>bookings := bookings h @ replicate n b\<rparr>"
    from Suc.IH have f: "findById ?s (req_hotelId req) = Some ?h"
      and l: "length (all_bookings ?s) = length (all_bookings hotels) + n" by simp_all
    have next_state: "step ?s = snd (findOneAndUpdate_push ?s (req_hotelId req) b)"
      unfolding step_def b_def using post_bookings_pass [OF assms(1-5), of _ ?h] f
      unfolding step_def b_def by simp
    have "findById (step ?s) (req_hotelId req) = Some (?h\<lparr>bookings := bookings ?h @ [b]\<rparr>)"
      unfolding next_state by (rule findOneAndUpdate_push_Some [OF f])
    moreover have "length (all_bookings (step ?s)) = Suc (length (all_bookings ?s))"
      unfolding next_state by (rule findOneAndUpdate_push_length [OF f])
    ultimately show ?case using l by (simp add: replicate_append_same)
  qed
  then show ?thesis unfolding step_def b_def .
qed

text \<open>
  Claim C3. Nothing records which payment intents were used. With a succeeded intent
  whose metadata matches, an existing hotel and a delivering mail transport, the same
  request repeated answers 200 every time, and after \<open>n\<close> calls the hotel's booking
  array has grown by \<open>n\<close> copies of the record and the collection by \<open>n\<close> records.
\<close>

theorem repeated_confirmations_append_each_time:
  assumes "verifyToken (jwt_verify e) req = Inr userId"
    and "stripe_retrieve e (req_body req ''paymentIntentId'') = Resolved (Some p)"
    and "pi_metadata p ''hotelId'' = Some (req_hotelId req)"
    and "pi_metadata p ''userId'' = Some userId"
    and "pi_status p = ''succeeded''"
    and "findById hotels (req_hotelId req) = Some h"
    and "sendMail e (booking_confirmation_mail req (hotel_name h))"
  shows "(\<forall>k. fst (post_bookings e (((\<lambda>s. snd (post_bookings e s req)) ^^ k) hotels) req) = Status_empty 200) \<and>
         bookings_of (((\<lambda>s. snd (post_bookings e s req)) ^^ n) hotels) (req_hotelId req)
           = bookings h @ replicate n ((req_body req)(''userId'' \<mapsto> JString userId)) \<and>
         length (all_bookings (((\<lambda>s. snd (post_bookings e s req)) ^^ n) hotels))
           = length (all_bookings hotels) + n"
proof -
  note iter = repeated_bookings_findById [OF assms(1-6)]
  have "fst (post_bookings e (((\<lambda>s. snd (post_bookings e s req)) ^^ k) hotels) req) = Status_empty 200" for k
    using post_bookings_pass [OF assms(1-5) conjunct1 [OF iter [of k]]] assms(7) by simp
  moreover have "bookings_of (((\<lambda>s. snd (post_bookings e s req)) ^^ n) hotels) (req_hotelId req)
           = bookings h @ replicate n ((req_body req)(''userId'' \<mapsto> JString userId))"
    unfolding bookings_of_def using conjunct1 [OF iter [of n]] by simp
  ultimately show ?thesis
    using conjunct2 [OF iter [of n]] by blast
qed


lemma sample_retrieve:
  "stripe_retrieve (sample_env r d) (req_body (sample_request b) ''paymentIntentId'') = r"
  by (simp add: sample_env_def)

lemma sample_metadata:
  "pi_metadata (sample_intent hid uid st) ''hotelId'' = Some hid"
  "pi_metadata (sample_intent hid uid st) ''userId'' = Some uid"
  "pi_status (sample_intent hid uid st) = st"
  by (simp_all add: sample_intent_def)

lemma sample_findById:
  "findById sample_hotels (req_hotelId (sample_request b))
     = Some \<lparr>hotel_id = ''h1'', hotel_name = ''Sea View'', pricePerNight = 100, bookings = []\<rparr>"
  by (simp add: findById_def sample_hotels_def sample_request_def)

text \<open>Three confirmations of the sample intent leave three records on hotel \<open>h1\<close>.\<close>

theorem repeated_confirmations_append_each_time_witness:
  "fst (post_bookings (sample_env (Resolved (Some (sample_intent ''h1'' ''u1'' ''succeeded''))) True)
          (((\<lambda>s. snd (post_bookings (sample_env (Resolved (Some (sample_intent ''h1'' ''u1'' ''succeeded''))) True)
                s (sample_request booking_body))) ^^ 2) sample_hotels)
          (sample_request booking_body)) = Status_empty 200 \<and>
   bookings_of (((\<lambda>s. snd (post_bookings (sample_env (Resolved (Some (sample_intent ''h1'' ''u1'' ''succeeded''))) True)
                s (sample_request booking_body))) ^^ 3) sample_hotels) ''h1''
     = replicate 3 (booking_body(''userId'' \<mapsto> JString ''u1''))"
proof -
  let ?e = "sample_env (Resolved (Some (sample_intent ''h1'' ''u1'' ''succeeded''))) True"
  let ?h = "\<lparr>hotel_id = ''h1'', hotel_name = ''Sea View'', pricePerNight = 100, bookings = []\<rparr>"
  have 2: "stripe_retrieve ?e (req_body (sample_request booking_body) ''paymentIntentId'')
             = Resolved (Some (sample_intent ''h1'' ''u1'' ''succeeded''))"
    by (rule sample_retrieve)
  have 3: "pi_metadata (sample_intent ''h1'' ''u1'' ''succeeded'') ''hotelId''
             = Some (req_hotelId (sample_request booking_body))"
    by (simp add: sample_metadata sample_request_def)
  have 7: "sendMail ?e (booking_confirmation_mail (sample_request booking_body) (hotel_name ?h))"
    by (simp add: sample_env_def)
  have id: "req_hotelId (sample_request booking_body) = ''h1''"
    and body: "req_body (sample_request booking_body) = booking_body"
    by (simp_all add: sample_request_def)
  from repeated_confirmations_append_each_time
         [OF verifyToken_sample 2 3 sample_metadata(2) sample_metadata(3) sample_findById 7, of 3]
  show ?thesis unfolding id body by simp
qed

section \<open>Phase 2: the payment status check\<close>

text \<open>
  The context check runs before the status check. An intent that is still processing
  and was made for hotel \<open>h2\<close>, presented for hotel \<open>h1\<close>, is answered with the
  mismatch message, not with the status message.
\<close>

theorem not_succeeded_masked_by_mismatch_counterexample:
  "post_bookings (sample_env (Resolved (Some (sample_intent ''h2'' ''u1'' ''processing''))) True)
      sample_hotels (sample_request booking_body)
   = (Status_message 400 ''payment intent mismatch'', sample_hotels)"
proof -
  have "bookings_handler (sample_env (Resolved (Some (sample_intent ''h2'' ''u1'' ''processing''))) True)
          sample_hotels (sample_request booking_body) ''u1''
        = (Status_message 400 ''payment intent mismatch'', sample_hotels)"
    by (simp add: bookings_handler_def sample_env_def sample_intent_def sample_request_def)
  then show ?thesis by (simp add: post_bookings_def verifyToken_sample)
qed

text \<open>
  Claim C6, amended. When the intent resolves with a status other than
  \<open>succeeded\<close>, no booking is appended. If its metadata matches the request, the
  answer is 400 with the message ``payment intent not succeeded. Status: '' followed by
  the provider's status string; if the metadata does not match, the answer is the
  mismatch message of the earlier check.
\<close>

theorem payment_not_succeeded_rejected:
  assumes "verifyToken (jwt_verify e) req = Inr userId"
    and "stripe_retrieve e (req_body req ''paymentIntentId'') = Resolved (Some p)"
    and "pi_status p \<noteq> ''succeeded''"
  shows "snd (post_bookings e hotels req) = hotels \<and>
         fst (post_bookings e hotels req) =
           (if pi_metadata p ''hotelId'' = Some (req_hotelId req) \<and> pi_metadata p ''userId'' = Some userId
            then Status_message 400 (''payment intent not succeeded. Status: '' @ pi_status p)
            else Status_message 400 ''payment intent mismatch'')"
  using assms by (simp add: post_bookings_def bookings_handler_def)

text \<open>A matching intent that is still processing.\<close>

theorem payment_not_succeeded_rejected_witness:
  "post_bookings (sample_env (Resolved (Some (sample_intent ''h1'' ''u1'' ''processing''))) True)
      sample_hotels (sample_request booking_body)
   = (Status_message 400 ''payment intent not succeeded. Status: processing'', sample_hotels)"
proof -
  have 3: "pi_status (sample_intent ''h1'' ''u1'' ''processing'') \<noteq> ''succeeded''"
    by (simp add: sample_metadata)
  have id: "req_hotelId (sample_request booking_body) = ''h1''"
    by (simp add: sample_request_def)
  let ?e = "sample_env (Resolved (Some (sample_intent ''h1'' ''u1'' ''processing''))) True"
  have 1: "verifyToken (jwt_verify ?e) (sample_request booking_body) = Inr ''u1''"
    by (rule verifyToken_sample)
  have 2: "stripe_retrieve ?e (req_body (sample_request booking_body) ''paymentIntentId'')
             = Resolved (Some (sample_intent ''h1'' ''u1'' ''processing''))"
    by (rule sample_retrieve)
  from payment_not_succeeded_rejected [OF 1 2 3, of sample_hotels]
  show ?thesis by (simp add: sample_metadata id prod_eq_iff)
qed

section \<open>Phase 1: total and authorization amount\<close>

text \<open>Facts about rounding to binary64.\<close>

lemma bit_length_pos: "0 < n \<Longrightarrow> 0 < bit_length n"
  by (subst bit_length.simps) simp

lemma bit_length_bounds: "0 < n \<Longrightarrow> 2 ^ (bit_length n - 1) \<le> n \<and> n < 2 ^ bit_length n"
proof (induction n rule: bit_length.induct)
  case (1 n)
  show ?case
  proof (cases "n div 2 = 0")
    case True
    with "1.prems" have n: "n = 1" by linarith
    have "bit_length 1 = 1" by (simp add: bit_length.simps)
    with n show ?thesis by simp
  next
    case False
    then have pos: "0 < n div 2" by simp
    from "1.IH" [OF _ pos] "1.prems"
    have ih: "2 ^ (bit_length (n div 2) - 1) \<le> n div 2" "n div 2 < 2 ^ bit_length (n div 2)"
      by simp_all
    have L: "bit_length n = Suc (bit_length (n div 2))"
      using "1.prems" by (subst bit_length.simps) simp
    from bit_length_pos [OF pos] obtain j where j: "bit_length (n div 2) = Suc j"
      by (cases "bit_length (n div 2)") simp_all
    from ih j have "2 * 2 ^ j \<le> 2 * (n div 2)" by simp
    then have lo: "2 ^ Suc j \<le> n" by (simp, linarith?)
    from ih(2) have "Suc (n div 2) \<le> 2 ^ bit_length (n div 2)" by simp
    then have "2 * Suc (n div 2) \<le> 2 * 2 ^ bit_length (n div 2)" by simp
    then have hi: "n < 2 ^ Suc (bit_length (n div 2))" by (simp, linarith?)
    from lo hi show ?thesis by (simp add: L j)
  qed
qed

lemma pow2_neg: "0 \<le> k \<Longrightarrow> pow2 (- k) = 1 / 2 ^ nat k"
  by (cases "k = 0") (simp_all add: pow2_def)

lemma round_half_even_of_int: "round_half_even (of_int z) = z"
  by (simp add: round_half_even_def)

lemma round_double_eval:
  assumes "x \<noteq> 0" and "binade \<bar>x\<bar> = e" and "- 1022 \<le> e"
    and "round_half_even (\<bar>x\<bar> / pow2 (e - 52)) = m"
    and "of_int m * pow2 (e - 52) < pow2 1024"
  shows "round_double x = Finite (if 0 < x then of_int m * pow2 (e - 52) else - (of_int m * pow2 (e - 52)))"
proof -
  have mx: "max e (- 1022) = e" using assms(3) by simp
  have "\<not> pow2 1024 \<le> of_int m * pow2 (e - 52)" using assms(5) by simp
  then show ?thesis
    unfolding round_double_def Let_def assms(2) mx assms(4) using assms(1) by simp
qed


lemma pow2_1024_large: "(2::rat) ^ 53 < pow2 1024"
  unfolding pow2_def by (simp del: power_numeral) 

lemma round_double_of_int:
  assumes "\<bar>k\<bar> \<le> 2 ^ 53"
  shows "round_double (of_int k) = Finite (of_int k)"
proof (cases "k = 0")
  case True
  then show ?thesis by (simp add: round_double_def)
next
  case False
  define n where "n = nat \<bar>k\<bar>"
  define L where "L = bit_length n"
  have n: "0 < n" "int n = \<bar>k\<bar>" using False by (simp_all add: n_def)
  from bit_length_bounds [OF n(1)] have lo: "2 ^ (L - 1) \<le> n" and hi: "n < 2 ^ L"
    by (simp_all add: L_def)
  have Lpos: "0 < L" using bit_length_pos [OF n(1)] by (simp add: L_def)
  have n53: "n \<le> 2 ^ 53" using assms n(2) by (simp add: n_def nat_le_iff)
  have abs: "\<bar>rat_of_int k\<bar> = of_int \<bar>k\<bar>" by simp
  have "1 \<le> \<bar>k\<bar>" using False by simp
  then have "(1::rat) \<le> of_int \<bar>k\<bar>" by (simp only: of_int_1_le_iff)
  then have one: "1 \<le> \<bar>rat_of_int k\<bar>" by simp
  have fl: "\<lfloor>\<bar>rat_of_int k\<bar>\<rfloor> = \<bar>k\<bar>" by (simp flip: of_int_abs)
  have e: "binade \<bar>rat_of_int k\<bar> = int L - 1"
    unfolding binade_def fl using one by (simp add: L_def n_def)
  have k0: "rat_of_int k \<noteq> 0" using False by simp
  have big: "rat_of_int \<bar>k\<bar> < pow2 1024"
  proof -
    have "rat_of_int \<bar>k\<bar> \<le> of_int (2 ^ 53)" using assms by (simp only: of_int_le_iff)
    also have "\<dots> = 2 ^ 53" by simp
    also note pow2_1024_large
    finally show ?thesis .
  qed
  have "(2::nat) ^ (L - 1) \<le> 2 ^ 53" using lo n53 by linarith
  then have "L - 1 \<le> 53" by (rule power_le_imp_le_exp [rotated]) simp
  then have L54: "L \<le> 54" by simp
  show ?thesis
  proof (cases "L \<le> 53")
    case True
    define j where "j = 53 - L"
    have ex: "int L - 1 - 52 = - int j" using True by (simp add: j_def)
    have p: "pow2 (int L - 1 - 52) = 1 / 2 ^ j" unfolding ex by (simp add: pow2_neg)
    have q: "rat_of_int \<bar>k\<bar> / (1 / 2 ^ j) = of_int (\<bar>k\<bar> * 2 ^ j)" by simp
    have m: "round_half_even (\<bar>rat_of_int k\<bar> / pow2 (int L - 1 - 52)) = \<bar>k\<bar> * 2 ^ j"
      unfolding abs p q by (rule round_half_even_of_int)
    have y: "rat_of_int (\<bar>k\<bar> * 2 ^ j) * pow2 (int L - 1 - 52) = of_int \<bar>k\<bar>"
      unfolding p by simp
    have "round_double (of_int k) = Finite (if 0 < rat_of_int k then of_int \<bar>k\<bar> else - of_int \<bar>k\<bar>)"
      using round_double_eval [OF k0 e _ m] big unfolding y using Lpos by simp
    then show ?thesis by (simp split: if_splits)
  next
    case F: False
    with L54 have L: "L = 54" by simp
    with lo n53 have "n = 2 ^ 53" by simp
    with n(2) have k: "\<bar>k\<bar> = 2 ^ 53" by simp
    have p: "pow2 (int L - 1 - 52) = 2" by (simp add: L pow2_def)
    have q: "rat_of_int \<bar>k\<bar> / 2 = of_int (2 ^ 52)" unfolding k by simp
    have m: "round_half_even (\<bar>rat_of_int k\<bar> / pow2 (int L - 1 - 52)) = 2 ^ 52"
      unfolding abs p q by (rule round_half_even_of_int)
    have y: "rat_of_int (2 ^ 52) * pow2 (int L - 1 - 52) = of_int \<bar>k\<bar>"
      unfolding p k by simp
    have "round_double (of_int k) = Finite (if 0 < rat_of_int k then of_int \<bar>k\<bar> else - of_int \<bar>k\<bar>)"
      using round_double_eval [OF k0 e _ m] big unfolding y using Lpos by simp
    then show ?thesis by (simp split: if_splits)
  qed
qed


lemma round_half_even_eval:
  assumes "of_int f \<le> q" and "q < of_int f + 1"
  shows "round_half_even q =
          (if q - of_int f < 1 / 2 then f else if 1 / 2 < q - of_int f then f + 1
           else if even f then f else f + 1)"
proof -
  have "\<lfloor>q\<rfloor> = f" using assms by (rule floor_unique)
  then show ?thesis by (simp add: round_half_even_def Let_def)
qed

lemma binade_eval:
  assumes "1 \<le> a" and "of_int f \<le> a" and "a < of_int f + 1" and "bit_length (nat f) = L"
  shows "binade a = int L - 1"
proof -
  have "\<lfloor>a\<rfloor> = f" using assms(2,3) by (rule floor_unique)
  with assms(1,4) show ?thesis by (simp add: binade_def)
qed

lemma round_double_above_2_53: "round_double 9007199254740993 = Finite 9007199254740992"
proof -
  have bl: "bit_length (nat 9007199254740993) = 54"
    by (simp add: bit_length.simps)
  have e: "binade \<bar>9007199254740993\<bar> = 53"
    using binade_eval [of "\<bar>9007199254740993\<bar>" 9007199254740993 54] bl by simp
  have m: "round_half_even (\<bar>9007199254740993\<bar> / pow2 (53 - 52)) = 4503599627370496"
    using round_half_even_eval [of 4503599627370496 "\<bar>9007199254740993\<bar> / pow2 (53 - 52)"]
    by (simp add: pow2_def)
  have b: "rat_of_int 4503599627370496 * pow2 (53 - 52) < pow2 1024"
    by (simp add: pow2_def)
  from round_double_eval [OF _ e _ m b] show ?thesis by (simp add: pow2_def)
qed

lemma round_double_times_100: "round_double (9007199254740992 * 100) = Finite 900719925474099200"
proof -
  have bl: "bit_length (nat 900719925474099200) = 60"
    by (simp add: bit_length.simps)
  have e: "binade \<bar>9007199254740992 * 100\<bar> = 59"
    using binade_eval [of "\<bar>9007199254740992 * 100\<bar>" 900719925474099200 60] bl by simp
  have m: "round_half_even (\<bar>9007199254740992 * 100\<bar> / pow2 (59 - 52)) = 7036874417766400"
    using round_half_even_eval [of 7036874417766400 "\<bar>9007199254740992 * 100\<bar> / pow2 (59 - 52)"]
    by (simp add: pow2_def)
  have b: "rat_of_int 7036874417766400 * pow2 (59 - 52) < pow2 1024"
    by (simp add: pow2_def)
  from round_double_eval [OF _ e _ m b] show ?thesis by (simp add: pow2_def)
qed

lemma round_double_fraction:
  "round_double (2448832297382707 / 562949953421312 * 100) = Finite (7652600929320959 / 17592186044416)"
proof -
  have bl: "bit_length (nat 434) = 9"
    by (simp add: bit_length.simps)
  have e: "binade \<bar>2448832297382707 / 562949953421312 * 100\<bar> = 8"
    using binade_eval [of "\<bar>2448832297382707 / 562949953421312 * 100\<bar>" 434 9] bl by simp
  have m: "round_half_even (\<bar>2448832297382707 / 562949953421312 * 100\<bar> / pow2 (8 - 52)) = 7652600929320959"
    using round_half_even_eval [of 7652600929320959 "\<bar>2448832297382707 / 562949953421312 * 100\<bar> / pow2 (8 - 52)"]
    by (simp add: pow2_def)
  have b: "rat_of_int 7652600929320959 * pow2 (8 - 52) < pow2 1024"
    by (simp add: pow2_def)
  from round_double_eval [OF _ e _ m b] show ?thesis by (simp add: pow2_def)
qed

lemma round_double_4_35: "round_double (2448832297382707 / 562949953421312 * 1) = Finite (2448832297382707 / 562949953421312)"
proof -
  have bl: "bit_length (nat 4) = 3"
    by (simp add: bit_length.simps)
  have e: "binade \<bar>2448832297382707 / 562949953421312 * 1\<bar> = 2"
    using binade_eval [of "\<bar>2448832297382707 / 562949953421312 * 1\<bar>" 4 3] bl by simp
  have m: "round_half_even (\<bar>2448832297382707 / 562949953421312 * 1\<bar> / pow2 (2 - 52)) = 4897664594765414"
    using round_half_even_eval [of 4897664594765414 "\<bar>2448832297382707 / 562949953421312 * 1\<bar> / pow2 (2 - 52)"]
    by (simp add: pow2_def)
  have b: "rat_of_int 4897664594765414 * pow2 (2 - 52) < pow2 1024"
    by (simp add: pow2_def)
  from round_double_eval [OF _ e _ m b] show ?thesis by (simp add: pow2_def)
qed

lemma times_js_Finite: "times_js (Finite a) (Finite b) = round_double (a * b)"
  by (simp add: times_js_def)

text \<open>Products of integers are exact while their magnitude is at most \<open>2 ^ 53\<close>.\<close>

lemma times_js_exact:
  assumes "\<bar>r * k\<bar> \<le> 2 ^ 53"
  shows "times_js (Finite (of_int r)) (Finite (of_int k)) = Finite (of_int (r * k))"
  using round_double_of_int [OF assms] by (simp add: times_js_Finite)

text \<open>
  The double nearest to 4.35 is \<open>2448832297382707 / 2 ^ 49\<close>. For one night at that
  rate the total is the rate itself and the amount is the double
  434.99999999999994, not 435.
\<close>

lemma times_js_fractional_rate:
  "times_js (times_js (Finite (2448832297382707 / 562949953421312)) (Finite 1)) (Finite 100)
     = Finite (7652600929320959 / 17592186044416)"
  by (simp only: times_js_Finite round_double_4_35 round_double_fraction)

lemma payment_intent_handler_found:
  assumes "verifyToken (jwt_verify e) req = Inr userId"
    and "findById hotels (req_hotelId req) = Some h"
    and "req_body req ''numberOfNights'' = Some (JNumber n)"
  shows "post_payment_intent e hotels req =
           (case stripe_create e
                   \<lparr>pp_amount = times_js (times_js (Finite (pricePerNight h)) (Finite n)) (Finite 100),
                    pp_currency = ''gbp'',
                    pp_metadata = [''hotelId'' \<mapsto> req_hotelId req, ''userId'' \<mapsto> userId]\<rparr> of
              Rejected \<Rightarrow> No_response
            | Resolved paymentIntent \<Rightarrow>
                (case pi_client_secret paymentIntent of
                   None \<Rightarrow> Status_message 500 ''Error creating payment intent''
                 | Some secret \<Rightarrow>
                     if secret = [] then Status_message 500 ''Error creating payment intent''
                     else Payment_intent_created (pi_id paymentIntent) secret
                            (times_js (Finite (pricePerNight h)) (Finite n))))"
proof -
  have tn: "toNumber (number_of e) (req_body req ''numberOfNights'') = Finite n"
    using assms(3) by simp
  show ?thesis
    unfolding post_payment_intent_def payment_intent_handler_def Let_def tn assms(1,2) by simp
qed

lemma verifyToken_sample_amount:
  "verifyToken (jwt_verify (sample_env_amount a)) (sample_request b) = Inr ''u1''"
  using verifyToken_sample [of Rejected True b] by (simp add: sample_env_amount_def sample_env_def)

text \<open>
  The products are products of doubles. At the nightly rate 3002399751580331 and 3
  nights the exact total is 9007199254740993, which is not a double: the handler
  returns 9007199254740992 and asks the provider for 900719925474099200.
\<close>

theorem rounded_total_counterexample:
  "post_payment_intent (sample_env_amount (Finite 900719925474099200)) costly_hotels
      (sample_request [''numberOfNights'' \<mapsto> JNumber 3])
     = Payment_intent_created ''pi_1'' ''pi_1_secret'' (Finite 9007199254740992) \<and>
   Finite 9007199254740992 \<noteq> Finite (3002399751580331 * 3)"
proof -
  let ?req = "sample_request [''numberOfNights'' \<mapsto> JNumber 3]"
  let ?h = "\<lparr>hotel_id = ''h1'', hotel_name = ''Sea View'', pricePerNight = 3002399751580331,
       bookings = []\<rparr>"
  have f: "findById costly_hotels (req_hotelId ?req) = Some ?h"
    by (simp add: findById_def costly_hotels_def sample_request_def)
  have n: "req_body ?req ''numberOfNights'' = Some (JNumber 3)"
    by (simp add: sample_request_def)
  have total: "times_js (Finite (pricePerNight ?h)) (Finite 3) = Finite 9007199254740992"
    using round_double_above_2_53 by (simp add: times_js_Finite)
  have amount: "times_js (Finite 9007199254740992) (Finite 100) = Finite 900719925474099200"
    using round_double_times_100 by (simp only: times_js_Finite)
  have "post_payment_intent (sample_env_amount (Finite 900719925474099200)) costly_hotels ?req
          = Payment_intent_created ''pi_1'' ''pi_1_secret'' (Finite 9007199254740992)"
    unfolding payment_intent_handler_found [OF verifyToken_sample_amount f n] total amount
    by (simp add: sample_env_amount_def sample_intent_def)
  then show ?thesis by simp
qed

text \<open>
  Claim C8, amended. For a signed-in request, a hotel with nightly rate \<open>r\<close> and a
  numeric night count \<open>n\<close>, the total is the double product \<open>r * n\<close> and the provider
  is asked for an intent of the double product \<open>total * 100\<close> in currency gbp with
  the hotel and user as metadata; when the provider returns a client secret the
  response carries that total. Both products are the exact \<open>r * n\<close> and
  \<open>r * n * 100\<close> whenever \<open>r\<close> and \<open>n\<close> are integers and \<open>r * n * 100\<close> is at most
  \<open>2 ^ 53\<close> in magnitude.
\<close>

theorem payment_intent_total_and_amount:
  assumes "verifyToken (jwt_verify e) req = Inr userId"
    and "findById hotels (req_hotelId req) = Some h"
    and "req_body req ''numberOfNights'' = Some (JNumber n)"
  shows "post_payment_intent e hotels req =
           (case stripe_create e
                   \<lparr>pp_amount = times_js (times_js (Finite (pricePerNight h)) (Finite n)) (Finite 100),
                    pp_currency = ''gbp'',
                    pp_metadata = [''hotelId'' \<mapsto> req_hotelId req, ''userId'' \<mapsto> userId]\<rparr> of
              Rejected \<Rightarrow> No_response
            | Resolved paymentIntent \<Rightarrow>
                (case pi_client_secret paymentIntent of
                   None \<Rightarrow> Status_message 500 ''Error creating payment intent''
                 | Some secret \<Rightarrow>
                     if secret = [] then Status_message 500 ''Error creating payment intent''
                     else Payment_intent_created (pi_id paymentIntent) secret
                            (times_js (Finite (pricePerNight h)) (Finite n)))) \<and>
         (\<forall>r k. pricePerNight h = of_int r \<and> n = of_int k \<and> \<bar>r * k * 100\<bar> \<le> 2 ^ 53 \<longrightarrow>
            times_js (Finite (pricePerNight h)) (Finite n) = Finite (of_int (r * k)) \<and>
            times_js (times_js (Finite (pricePerNight h)) (Finite n)) (Finite 100)
              = Finite (of_int (r * k * 100)))"
proof -
  have exact: "times_js (Finite (of_int r)) (Finite (of_int k)) = Finite (of_int (r * k)) \<and>
        times_js (times_js (Finite (of_int r)) (Finite (of_int k))) (Finite 100)
          = Finite (of_int (r * k * 100))"
    if b: "\<bar>r * k * 100\<bar> \<le> 2 ^ 53" for r k :: int
  proof -
    have "\<bar>r * k\<bar> \<le> \<bar>r * k\<bar> * 100" by simp
    also have "\<dots> = \<bar>r * k * 100\<bar>" by (simp add: abs_mult)
    finally have "\<bar>r * k\<bar> \<le> 2 ^ 53" using b by linarith
    then have t: "times_js (Finite (of_int r)) (Finite (of_int k)) = Finite (of_int (r * k))"
      by (rule times_js_exact)
    have "times_js (Finite (of_int (r * k))) (Finite (of_int 100)) = Finite (of_int (r * k * 100))"
      using b by (rule times_js_exact)
    with t show ?thesis by simp
  qed
  show ?thesis
  proof (intro conjI allI impI)
    show "post_payment_intent e hotels req =
           (case stripe_create e
                   \<lparr>pp_amount = times_js (times_js (Finite (pricePerNight h)) (Finite n)) (Finite 100),
                    pp_currency = ''gbp'',
                    pp_metadata = [''hotelId'' \<mapsto> req_hotelId req, ''userId'' \<mapsto> userId]\<rparr> of
              Rejected \<Rightarrow> No_response
            | Resolved paymentIntent \<Rightarrow>
                (case pi_client_secret paymentIntent of
                   None \<Rightarrow> Status_message 500 ''Error creating payment intent''
                 | Some secret \<Rightarrow>
                     if secret = [] then Status_message 500 ''Error creating payment intent''
                     else Payment_intent_created (pi_id paymentIntent) secret
                            (times_js (Finite (pricePerNight h)) (Finite n))))"
      by (rule payment_intent_handler_found [OF assms])
  next
    fix r k
    assume a: "pricePerNight h = of_int r \<and> n = of_int k \<and> \<bar>r * k * 100\<bar> \<le> 2 ^ 53"
    then have b: "\<bar>r * k * 100\<bar> \<le> 2 ^ 53"
      and p: "pricePerNight h = of_int r" and nk: "n = of_int k" by simp_all
    show "times_js (Finite (pricePerNight h)) (Finite n) = Finite (of_int (r * k))"
      unfolding p nk by (rule conjunct1 [OF exact [OF b]])
    show "times_js (times_js (Finite (pricePerNight h)) (Finite n)) (Finite 100)
              = Finite (of_int (r * k * 100))"
      unfolding p nk by (rule conjunct2 [OF exact [OF b]])
  qed
qed

text \<open>
  Rate 100 and 3 nights, against a provider that accepts only the amount 30000: the
  intent is created and the total returned is 300.
\<close>

theorem payment_intent_total_and_amount_witness:
  "post_payment_intent (sample_env_amount (Finite 30000)) sample_hotels
      (sample_request [''numberOfNights'' \<mapsto> JNumber 3])
   = Payment_intent_created ''pi_1'' ''pi_1_secret'' (Finite 300)"
proof -
  let ?req = "sample_request [''numberOfNights'' \<mapsto> JNumber 3]"
  let ?h = "\<lparr>hotel_id = ''h1'', hotel_name = ''Sea View'', pricePerNight = 100, bookings = []\<rparr>"
  have n: "req_body ?req ''numberOfNights'' = Some (JNumber 3)"
    by (simp add: sample_request_def)
  note inst = payment_intent_total_and_amount [OF verifyToken_sample_amount sample_findById n,
      of "Finite 30000"]
  have "pricePerNight ?h = of_int 100 \<and> (3::rat) = of_int 3 \<and> \<bar>(100::int) * 3 * 100\<bar> \<le> 2 ^ 53"
    by simp
  with inst have total: "times_js (Finite (pricePerNight ?h)) (Finite 3) = Finite (of_int (100 * 3))"
    and amount: "times_js (times_js (Finite (pricePerNight ?h)) (Finite 3)) (Finite 100)
                   = Finite (of_int (100 * 3 * 100))"
    by blast+
  from inst show ?thesis
    unfolding total amount by (simp add: sample_env_amount_def sample_intent_def)
qed

section \<open>The booking's userId\<close>

lemma bookings_handler_body_userId:
  assumes "req_cookies r1 = req_cookies r2" and "req_authorization r1 = req_authorization r2"
    and "req_hotelId r1 = req_hotelId r2"
    and "\<forall>k. k \<noteq> ''userId'' \<longrightarrow> req_body r1 k = req_body r2 k"
  shows "bookings_handler e hotels r1 userId = bookings_handler e hotels r2 userId"
proof -
  have upd: "(req_body r1)(''userId'' \<mapsto> JString userId) = (req_body r2)(''userId'' \<mapsto> JString userId)"
    using assms(4) by (auto simp: fun_eq_iff)
  have fields: "req_body r1 ''paymentIntentId'' = req_body r2 ''paymentIntentId''"
    "req_body r1 ''email'' = req_body r2 ''email''"
    "req_body r1 ''firstName'' = req_body r2 ''firstName''"
    "req_body r1 ''checkIn'' = req_body r2 ''checkIn''"
    "req_body r1 ''checkOut'' = req_body r2 ''checkOut''"
    "req_body r1 ''totalCost'' = req_body r2 ''totalCost''"
    using assms(4) by simp_all
  show ?thesis
    unfolding bookings_handler_def booking_confirmation_mail_def upd fields assms(3) ..
qed

text \<open>
  Claim C10. Two requests that differ only in the body's \<open>userId\<close> have the same
  response and leave the same hotel collection; and every record the request adds is
  the body with \<open>userId\<close> set to the identity of the verified token.
\<close>

theorem booking_userId_from_token_only:
  assumes "req_cookies r1 = req_cookies r2" and "req_authorization r1 = req_authorization r2"
    and "req_hotelId r1 = req_hotelId r2"
    and "\<forall>k. k \<noteq> ''userId'' \<longrightarrow> req_body r1 k = req_body r2 k"
  shows "post_bookings e hotels r1 = post_bookings e hotels r2 \<and>
         (\<forall>userId. verifyToken (jwt_verify e) r1 = Inr userId \<longrightarrow>
            set (all_bookings (snd (post_bookings e hotels r1)))
              \<subseteq> insert ((req_body r1)(''userId'' \<mapsto> JString userId)) (set (all_bookings hotels)))"
proof -
  have tok: "verifyToken (jwt_verify e) r1 = verifyToken (jwt_verify e) r2"
    by (simp add: verifyToken_def request_token_def assms(1,2))
  have same: "post_bookings e hotels r1 = post_bookings e hotels r2"
    unfolding post_bookings_def tok
    by (simp add: bookings_handler_body_userId [OF assms] split: sum.splits)
  have "set (all_bookings (snd (post_bookings e hotels r1)))
          \<subseteq> insert ((req_body r1)(''userId'' \<mapsto> JString userId)) (set (all_bookings hotels))"
    if "verifyToken (jwt_verify e) r1 = Inr userId" for userId
    using bookings_handler_unchanged_or_pushed [of e hotels r1 userId]
      findOneAndUpdate_push_set [of hotels "req_hotelId r1" "(req_body r1)(''userId'' \<mapsto> JString userId)"]
    by (auto simp: post_bookings_def that)
  with same show ?thesis by blast
qed

text \<open>A body that names another user, against the same body without that field.\<close>

theorem booking_userId_from_token_only_witness:
  "post_bookings (sample_env (Resolved (Some (sample_intent ''h1'' ''u1'' ''succeeded''))) True)
      sample_hotels (sample_request (booking_body(''userId'' \<mapsto> JString ''u2'')))
   = post_bookings (sample_env (Resolved (Some (sample_intent ''h1'' ''u1'' ''succeeded''))) True)
      sample_hotels (sample_request booking_body)"
proof -
  have "\<forall>k. k \<noteq> ''userId'' \<longrightarrow>
          req_body (sample_request (booking_body(''userId'' \<mapsto> JString ''u2''))) k
            = req_body (sample_request booking_body) k"
    by (simp add: sample_request_def)
  from booking_userId_from_token_only [OF _ _ _ this]
  show ?thesis by (simp add: sample_request_def)
qed

section \<open>Passcode generation\<close>

lemma dec_not_Nil: "dec n \<noteq> []"
  by (subst dec.simps) simp

lemma digit_char_inj: "a < 10 \<Longrightarrow> b < 10 \<Longrightarrow> digit_char a = digit_char b \<Longrightarrow> a = b"
  unfolding digit_char_def
  by (subst (asm) nth_eq_iff_index_eq) simp_all

lemma dec_inj: "dec m = dec n \<Longrightarrow> m = n"
proof (induction m arbitrary: n rule: dec.induct)
  case (1 m)
  show ?case
  proof (cases "m < 10")
    case True
    then have m: "dec m = [digit_char m]" by (subst dec.simps) simp
    show ?thesis
    proof (cases "n < 10")
      case True
      then have "dec n = [digit_char n]" by (subst dec.simps) simp
      with m "1.prems" \<open>m < 10\<close> True show ?thesis by (simp add: digit_char_inj)
    next
      case False
      then have "dec n = dec (n div 10) @ [digit_char (n mod 10)]" by (subst dec.simps) simp
      with m "1.prems" dec_not_Nil [of "n div 10"] show ?thesis by simp
    qed
  next
    case False
    then have m: "dec m = dec (m div 10) @ [digit_char (m mod 10)]" by (subst dec.simps) simp
    show ?thesis
    proof (cases "n < 10")
      case True
      then have "dec n = [digit_char n]" by (subst dec.simps) simp
      with m "1.prems" dec_not_Nil [of "m div 10"] show ?thesis by simp
    next
      case n: False
      then have "dec n = dec (n div 10) @ [digit_char (n mod 10)]" by (subst dec.simps) simp
      with m "1.prems" have eq: "dec (m div 10) = dec (n div 10)"
        and d: "digit_char (m mod 10) = digit_char (n mod 10)" by simp_all
      from "1.IH" [OF False eq] have "m div 10 = n div 10" .
      moreover from d have "m mod 10 = n mod 10" by (simp add: digit_char_inj)
      ultimately show ?thesis by (metis div_mult_mod_eq)
    qed
  qed
qed

lemma dec_999999: "dec 999999 = ''999999''"
  by (simp add: dec.simps digit_char_def)

lemma generateOtp_123456: "generateOtp 23456 = ''123456''"
  by (simp add: generateOtp_def randomInt_def toString_def dec.simps digit_char_def)

lemma randomInt_bounds: "lo < hi \<Longrightarrow> lo \<le> randomInt lo hi x \<and> randomInt lo hi x < hi"
proof -
  assume "lo < hi"
  then have "0 < nat (hi - lo)" by simp
  then have "x mod nat (hi - lo) < nat (hi - lo)" by (rule mod_less_divisor)
  then have "int (x mod nat (hi - lo)) < hi - lo" using \<open>lo < hi\<close> by linarith
  then show ?thesis by (simp add: randomInt_def)
qed

text \<open>
  Claim C4. The passcode is \<open>crypto.randomInt(100000, 999999)\<close>, whose upper bound
  is exclusive: whatever the random draw, the value lies between 100000 and 999998, so
  no passcode is below 100000 or above 999999, but 999999 itself is never produced.
\<close>

theorem otp_never_999999:
  "100000 \<le> randomInt 100000 999999 x \<and> randomInt 100000 999999 x \<le> 999998 \<and>
   randomInt 100000 999999 x \<noteq> 999999 \<and> generateOtp x \<noteq> ''999999''"
proof -
  have b: "100000 \<le> randomInt 100000 999999 x \<and> randomInt 100000 999999 x < 999999"
    by (rule randomInt_bounds) simp
  have "generateOtp x \<noteq> ''999999''"
  proof
    assume "generateOtp x = ''999999''"
    with b have "dec (nat (randomInt 100000 999999 x)) = dec 999999"
      by (simp add: generateOtp_def toString_def dec_999999)
    then have "nat (randomInt 100000 999999 x) = 999999" by (rule dec_inj)
    with b show False by linarith
  qed
  with b show ?thesis by simp
qed

section \<open>Facts about the user store\<close>

lemma generateOtp_not_Nil: "generateOtp x \<noteq> []"
  by (simp add: generateOtp_def toString_def dec_not_Nil)


lemma findOne_from_Some:
  "findOne_from k us q = Some (i, u) \<Longrightarrow>
     k \<le> i \<and> i - k < length us \<and> us ! (i - k) = u \<and> q = Some (JString (user_email u))"
proof (induction us arbitrary: k)
  case Nil
  then show ?case by simp
next
  case (Cons a us)
  show ?case
  proof (cases "q = Some (JString (user_email a))")
    case True
    with Cons.prems show ?thesis by simp
  next
    case False
    with Cons.prems have "findOne_from (Suc k) us q = Some (i, u)" by simp
    from Cons.IH [OF this] show ?thesis by (auto simp: Suc_diff_le)
  qed
qed

lemma findOne_Some:
  "findOne us q = Some (i, u) \<Longrightarrow> i < length us \<and> us ! i = u \<and> q = Some (JString (user_email u))"
  using findOne_from_Some [of 0 us q i u] by (simp add: findOne_def)

text \<open>Which position a query finds depends on the emails alone.\<close>

lemma findOne_from_emails:
  "map user_email us = map user_email vs \<Longrightarrow>
     map_option fst (findOne_from k us q) = map_option fst (findOne_from k vs q)"
proof (induction us arbitrary: vs k)
  case Nil
  then show ?case by simp
next
  case (Cons a us)
  then obtain b vs' where vs: "vs = b # vs'" and e: "user_email a = user_email b"
    and m: "map user_email us = map user_email vs'" by (cases vs) auto
  show ?case using Cons.IH [OF m, of "Suc k"] by (simp add: vs e)
qed

lemma findOne_update:
  assumes "j < length us" and "user_email u' = user_email (us ! j)"
  shows "findOne (us[j := u']) q = map_option (\<lambda>(i, u). (i, (us[j := u']) ! i)) (findOne us q)"
proof -
  have "map user_email (us[j := u']) = map user_email us"
    using assms by (simp add: map_update list_update_same_conv)
  then have idx: "map_option fst (findOne (us[j := u']) q) = map_option fst (findOne us q)"
    unfolding findOne_def by (rule findOne_from_emails)
  show ?thesis
  proof (cases "findOne (us[j := u']) q")
    case None
    with idx show ?thesis by (cases "findOne us q") simp_all
  next
    case (Some r)
    obtain i v where r: "r = (i, v)" by (cases r)
    from findOne_Some [of "us[j := u']" q i v] Some r have "v = (us[j := u']) ! i" by simp
    with idx Some r show ?thesis by (cases "findOne us q") auto
  qed
qed

lemma findOne_from_append:
  "findOne_from k (us @ [u]) q =
     (case findOne_from k us q of
        Some r \<Rightarrow> Some r
      | None \<Rightarrow> if q = Some (JString (user_email u)) then Some (k + length us, u) else None)"
  by (induction us arbitrary: k) (auto split: option.splits)

lemma verified_append: "verified us q \<Longrightarrow> verified (us @ [u]) q"
  by (auto simp: verified_def findOne_def findOne_from_append split: option.splits)

lemma verified_update:
  assumes "verified us q" and "j < length us" and "user_email u' = user_email (us ! j)"
    and "\<not> isVerified (us ! j) \<or> isVerified u'"
  shows "verified (us[j := u']) q"
proof -
  from assms(1) obtain i u where f: "findOne us q = Some (i, u)" and v: "isVerified u"
    by (auto simp: verified_def split: option.splits)
  from findOne_Some [OF f] have i: "i < length us" "us ! i = u" by simp_all
  have "findOne (us[j := u']) q = Some (i, (us[j := u']) ! i)"
    by (simp add: findOne_update [OF assms(2,3)] f)
  moreover have "isVerified ((us[j := u']) ! i)"
    using assms(2,4) i v by (cases "i = j") auto
  ultimately show ?thesis by (simp add: verified_def)
qed

lemma register_snd:
  "snd (register_handler e now x us req) = us \<or>
   (\<exists>email. snd (register_handler e now x us req) =
      us @ [\<lparr>user_id = new_id e, user_email = email, user_profile = req_body req,
              otp = Some (generateOtp x), otpExpiry = Some (now + 10 * 60 * 1000), isVerified = False\<rparr>])"
  by (auto simp: register_handler_def Let_def split: option.splits json.splits outcome.splits)

lemma verify_snd:
  "snd (verify_email_handler now us req) = us \<or>
   (\<exists>i u. findOne us (req_body req ''email'') = Some (i, u) \<and> \<not> isVerified u \<and>
      snd (verify_email_handler now us req) = us[i := u\<lparr>isVerified := True, otp := None, otpExpiry := None\<rparr>])"
  by (auto simp: verify_email_handler_def Let_def save_def split: option.splits prod.splits)

lemma resend_snd:
  "snd (resend_otp_handler e now x us req) = us \<or>
   (\<exists>i u. findOne us (req_body req ''email'') = Some (i, u) \<and> \<not> isVerified u \<and>
      snd (resend_otp_handler e now x us req)
        = us[i := u\<lparr>otp := Some (generateOtp x), otpExpiry := Some (now + 10 * 60 * 1000)\<rparr>])"
  by (auto simp: resend_otp_handler_def Let_def save_def sendEmail_def split: option.splits prod.splits)


section \<open>The passcode fields\<close>

lemma list_all_update: "list_all P xs \<Longrightarrow> P x \<Longrightarrow> list_all P (xs[i := x])"
  using set_update_subset_insert [of xs i x] by (auto simp: list_all_iff)

lemma register_consistent:
  "list_all otp_consistent us \<Longrightarrow> list_all otp_consistent (snd (register_handler e now x us req))"
  using register_snd [of e now x us req] by (auto simp: otp_consistent_def)

lemma verify_consistent:
  "list_all otp_consistent us \<Longrightarrow> list_all otp_consistent (snd (verify_email_handler now us req))"
  using verify_snd [of now us req] by (auto simp: otp_consistent_def intro!: list_all_update)

lemma resend_consistent:
  "list_all otp_consistent us \<Longrightarrow> list_all otp_consistent (snd (resend_otp_handler e now x us req))"
  using resend_snd [of e now x us req] by (auto simp: otp_consistent_def intro!: list_all_update)

lemma reachable_consistent: "reachable us \<Longrightarrow> list_all otp_consistent us"
  by (induction rule: reachable.induct)
     (simp_all add: register_consistent verify_consistent resend_consistent)

text \<open>
  Claim C9. Each of register, verify-email and resend-otp takes a collection in which
  every user has the passcode and its expiry both present or both absent to a
  collection with the same property, and every collection reachable from the empty one
  by these endpoints has it: no reachable state has exactly one of the two fields set.
\<close>

theorem otp_secret_and_expiry_together:
  "(list_all otp_consistent us \<longrightarrow>
      list_all otp_consistent (snd (register_handler e now x us req)) \<and>
      list_all otp_consistent (snd (verify_email_handler now us req)) \<and>
      list_all otp_consistent (snd (resend_otp_handler e now x us req))) \<and>
   (reachable us \<longrightarrow> list_all otp_consistent us)"
  by (simp add: register_consistent verify_consistent resend_consistent reachable_consistent)

lemma sample_env_fields:
  "sendMail (sample_env r d) m = d"
  "new_id (sample_env r d) = ''u1''"
  "jwt_sign (sample_env r d) u = ''token-of-'' @ u"
  by (simp_all add: sample_env_def)

lemma sample_registered:
  "register_handler (sample_env r True) t 23456 [] (sample_request register_body)
     = (User_registered ''u1@example.com'' ''u1'' ''token-of-u1'',
        [\<lparr>user_id = ''u1'', user_email = ''u1@example.com'', user_profile = register_body,
          otp = Some ''123456'', otpExpiry = Some (t + 600000), isVerified = False\<rparr>])"
proof -
  have m: "req_body (sample_request register_body) = register_body"
    by (simp add: sample_request_def)
  have v: "register_validation (sample_env r True) register_body"
    by (simp add: register_validation_def isString_def sample_env_def register_body_def)
  have em: "register_body ''email'' = Some (JString ''u1@example.com'')"
    by (simp add: register_body_def)
  show ?thesis
    by (simp add: register_handler_def m v em findOne_def generateOtp_123456 sendEmail_def
          sample_env_fields)
qed

text \<open>A registration followed by a resend whose mail is rejected.\<close>

theorem otp_secret_and_expiry_together_witness:
  "list_all otp_consistent
     (snd (resend_otp_handler (sample_env Rejected False) 5000 7
        (snd (register_handler (sample_env Rejected True) 0 23456 [] (sample_request register_body)))
        (sample_request (otp_body ''000000''))))"
proof -
  let ?us = "snd (register_handler (sample_env Rejected True) 0 23456 [] (sample_request register_body))"
  have r: "reachable ?us" by (intro reachable.intros)
  from otp_secret_and_expiry_together [of ?us "sample_env Rejected False" 5000 7 "sample_request (otp_body ''000000'')"] r
  show ?thesis by simp
qed

section \<open>The Verified state\<close>

lemma verify_success:
  "fst (verify_email_handler now us req) = Status_message 200 ''Email verified successfully'' \<Longrightarrow>
     \<exists>i u. findOne us (req_body req ''email'') = Some (i, u) \<and> \<not> isVerified u \<and>
       snd (verify_email_handler now us req) = us[i := u\<lparr>isVerified := True, otp := None, otpExpiry := None\<rparr>]"
  by (auto simp: verify_email_handler_def Let_def save_def split: option.splits prod.splits if_splits)

lemma verified_rejected:
  "verified us (req_body req ''email'') \<Longrightarrow>
     verify_email_handler now us req = (Status_message 400 ''Email already verified'', us)"
  by (auto simp: verified_def verify_email_handler_def split: option.splits)

lemma verified_after_register: "verified us q \<Longrightarrow> verified (snd (register_handler e now x us req)) q"
  using register_snd [of e now x us req] by (auto simp: verified_append)

lemma verified_after_verify: "verified us q \<Longrightarrow> verified (snd (verify_email_handler now us req)) q"
proof -
  assume v: "verified us q"
  from verify_snd [of now us req] show ?thesis
  proof
    assume "snd (verify_email_handler now us req) = us"
    with v show ?thesis by simp
  next
    assume "\<exists>i u. findOne us (req_body req ''email'') = Some (i, u) \<and> \<not> isVerified u \<and>
      snd (verify_email_handler now us req) = us[i := u\<lparr>isVerified := True, otp := None, otpExpiry := None\<rparr>]"
    then obtain i u where f: "findOne us (req_body req ''email'') = Some (i, u)"
      and s: "snd (verify_email_handler now us req) = us[i := u\<lparr>isVerified := True, otp := None, otpExpiry := None\<rparr>]"
      by blast
    from findOne_Some [OF f] have "i < length us" "us ! i = u" by simp_all
    then show ?thesis unfolding s by (intro verified_update [OF v]) simp_all
  qed
qed

lemma verified_after_resend: "verified us q \<Longrightarrow> verified (snd (resend_otp_handler e now x us req)) q"
proof -
  assume v: "verified us q"
  from resend_snd [of e now x us req] show ?thesis
  proof
    assume "snd (resend_otp_handler e now x us req) = us"
    with v show ?thesis by simp
  next
    assume "\<exists>i u. findOne us (req_body req ''email'') = Some (i, u) \<and> \<not> isVerified u \<and>
      snd (resend_otp_handler e now x us req)
        = us[i := u\<lparr>otp := Some (generateOtp x), otpExpiry := Some (now + 10 * 60 * 1000)\<rparr>]"
    then obtain i u where f: "findOne us (req_body req ''email'') = Some (i, u)" and n: "\<not> isVerified u"
      and s: "snd (resend_otp_handler e now x us req)
        = us[i := u\<lparr>otp := Some (generateOtp x), otpExpiry := Some (now + 10 * 60 * 1000)\<rparr>]"
      by blast
    from findOne_Some [OF f] have "i < length us" "us ! i = u" by simp_all
    with n show ?thesis unfolding s by (intro verified_update [OF v]) simp_all
  qed
qed

lemma verified_by_success:
  assumes "fst (verify_email_handler now us req) = Status_message 200 ''Email verified successfully''"
  shows "\<not> verified us (req_body req ''email'') \<and>
         verified (snd (verify_email_handler now us req)) (req_body req ''email'')"
proof -
  from verify_success [OF assms] obtain i u
    where f: "findOne us (req_body req ''email'') = Some (i, u)" and n: "\<not> isVerified u"
      and s: "snd (verify_email_handler now us req) = us[i := u\<lparr>isVerified := True, otp := None, otpExpiry := None\<rparr>]"
    by blast
  from findOne_Some [OF f] have i: "i < length us" "us ! i = u" by simp_all
  have "findOne (us[i := u\<lparr>isVerified := True, otp := None, otpExpiry := None\<rparr>]) (req_body req ''email'')
          = Some (i, u\<lparr>isVerified := True, otp := None, otpExpiry := None\<rparr>)"
    using i by (simp add: findOne_update f)
  with f n s show ?thesis by (simp add: verified_def)
qed

text \<open>
  Claim C7. For an identity in the Verified state, a verify-email request with any
  submitted code is answered 400 ``Email already verified'' and the collection is
  unchanged. A verification that succeeds starts from an identity that is not verified
  and leaves it verified, and none of the three endpoints takes an identity out of the
  Verified state: success is granted once per identity.
\<close>

theorem verified_is_final:
  "(verified us (req_body req ''email'') \<longrightarrow>
      verify_email_handler now us req = (Status_message 400 ''Email already verified'', us)) \<and>
   (fst (verify_email_handler now us req) = Status_message 200 ''Email verified successfully'' \<longrightarrow>
      \<not> verified us (req_body req ''email'') \<and>
      verified (snd (verify_email_handler now us req)) (req_body req ''email'')) \<and>
   (verified us q \<longrightarrow>
      verified (snd (register_handler e t x us r)) q \<and>
      verified (snd (verify_email_handler t us r)) q \<and>
      verified (snd (resend_otp_handler e t x us r)) q)"
  using verified_rejected [of us req now] verified_by_success [of now us req]
    verified_after_register [of us q e t x r] verified_after_verify [of us q t r]
    verified_after_resend [of us q e t x r]
  by blast


lemma sample_otp_request:
  "req_body (sample_request (otp_body code)) ''email'' = Some (JString ''u1@example.com'')"
  "req_body (sample_request (otp_body code)) ''otp'' = Some (JString code)"
  by (simp_all add: sample_request_def otp_body_def)

text \<open>Register, verify with the issued code, and present the same code again.\<close>

theorem verified_is_final_witness:
  "verify_email_handler 2000
     (snd (verify_email_handler 1000
        (snd (register_handler (sample_env Rejected True) 0 23456 [] (sample_request register_body)))
        (sample_request (otp_body ''123456''))))
     (sample_request (otp_body ''123456''))
   = (Status_message 400 ''Email already verified'',
      snd (verify_email_handler 1000
        (snd (register_handler (sample_env Rejected True) 0 23456 [] (sample_request register_body)))
        (sample_request (otp_body ''123456''))))"
proof -
  let ?us = "snd (register_handler (sample_env Rejected True) 0 23456 [] (sample_request register_body))"
  let ?req = "sample_request (otp_body ''123456'')"
  have ok: "fst (verify_email_handler 1000 ?us ?req) = Status_message 200 ''Email verified successfully''"
    by (simp add: sample_registered verify_email_handler_def sample_otp_request findOne_def save_def)
  from verified_is_final [of ?us ?req 1000] ok
  have v: "verified (snd (verify_email_handler 1000 ?us ?req)) (req_body ?req ''email'')" by blast
  from verified_is_final [of "snd (verify_email_handler 1000 ?us ?req)" ?req 2000] v
  show ?thesis by blast
qed

section \<open>Passcode expiry\<close>

text \<open>
  The check is \<open>user.otpExpiry < new Date()\<close>: a passcode is expired only strictly
  after its expiry instant. Registered at time 0, the passcode expires at 600000; a
  verification with the issued code at exactly 600000 succeeds.
\<close>

theorem verification_at_expiry_instant_counterexample:
  "verify_email_handler (0 + 10 * 60 * 1000)
     (snd (register_handler (sample_env Rejected True) 0 23456 [] (sample_request register_body)))
     (sample_request (otp_body ''123456''))
   = (Status_message 200 ''Email verified successfully'',
      [\<lparr>user_id = ''u1'', user_email = ''u1@example.com'', user_profile = register_body,
        otp = None, otpExpiry = None, isVerified = True\<rparr>])"
  by (simp add: sample_registered verify_email_handler_def sample_otp_request findOne_def save_def)

text \<open>
  Claim C5, amended. For an unverified identity with a passcode issued at \<open>issued\<close>
  (expiry \<open>issued + 10 * 60 * 1000\<close>), a verify attempt with the exactly matching
  code at any clock time strictly later than the expiry is answered 400
  ``OTP expired'' and changes nothing.
\<close>

theorem expired_passcode_rejected:
  assumes "findOne us (req_body req ''email'') = Some (i, u)"
    and "\<not> isVerified u"
    and "otp u = Some code"
    and "code \<noteq> []"
    and "otpExpiry u = Some (issued + 10 * 60 * 1000)"
    and "req_body req ''otp'' = Some (JString code)"
    and "issued + 10 * 60 * 1000 < now"
  shows "verify_email_handler now us req = (Status_message 400 ''OTP expired'', us)"
  using assms by (simp add: verify_email_handler_def)

text \<open>One millisecond after the expiry.\<close>

theorem expired_passcode_rejected_witness:
  "verify_email_handler 600001
     (snd (register_handler (sample_env Rejected True) 0 23456 [] (sample_request register_body)))
     (sample_request (otp_body ''123456''))
   = (Status_message 400 ''OTP expired'',
      snd (register_handler (sample_env Rejected True) 0 23456 [] (sample_request register_body)))"
proof -
  let ?u = "\<lparr>user_id = ''u1'', user_email = ''u1@example.com'', user_profile = register_body,
        otp = Some ''123456'', otpExpiry = Some (0 + 600000), isVerified = False\<rparr>"
  have us: "snd (register_handler (sample_env Rejected True) 0 23456 [] (sample_request register_body)) = [?u]"
    by (simp add: sample_registered)
  have f: "findOne [?u] (req_body (sample_request (otp_body ''123456'')) ''email'') = Some (0, ?u)"
    by (simp add: findOne_def sample_otp_request)
  have "verify_email_handler 600001 [?u] (sample_request (otp_body ''123456''))
          = (Status_message 400 ''OTP expired'', [?u])"
    by (rule expired_passcode_rejected [OF f, where code = "''123456''" and issued = 0])
       (simp_all add: sample_otp_request)
  then show ?thesis unfolding us .
qed

text \<open>Both issuing endpoints store the expiry ten minutes after their own clock reading.\<close>

lemma register_issues:
  "fst (register_handler e now x us req) = User_registered em uid tok \<Longrightarrow>
     \<exists>u. snd (register_handler e now x us req) = us @ [u] \<and> user_email u = em \<and>
       otp u = Some (generateOtp x) \<and> otpExpiry u = Some (now + 10 * 60 * 1000) \<and> \<not> isVerified u"
  by (auto simp: register_handler_def Let_def split: option.splits json.splits outcome.splits if_splits)

lemma resend_issues:
  "fst (resend_otp_handler e now x us req) = Status_message 200 ''OTP resent successfully'' \<Longrightarrow>
     \<exists>i u. findOne us (req_body req ''email'') = Some (i, u) \<and>
       snd (resend_otp_handler e now x us req)
         = us[i := u\<lparr>otp := Some (generateOtp x), otpExpiry := Some (now + 10 * 60 * 1000)\<rparr>]"
  by (auto simp: resend_otp_handler_def Let_def save_def split: option.splits prod.splits outcome.splits if_splits)

end
